theory Spec2Isabelle
  imports Main "HOL-Library.Word" "HOL-Library.Sublist"
begin

section \<open>Time\<close>

text \<open>
  Go's \<^verbatim>\<open>time.Duration\<close> is an \<^verbatim>\<open>int64\<close> count of nanoseconds: a 64-bit word, compared
  as a signed number. A \<^verbatim>\<open>time.Time\<close> is an instant; it is modelled as an integer count of
  nanoseconds (its range is far wider than that of a duration, so it is left unbounded).
\<close>

type_synonym Duration = "64 word"
type_synonym Time = int

definition Hour :: Duration where
  "Hour = 3600000000000"

definition maxDuration :: int where
  "maxDuration = 2 ^ 63 - 1"

definition minDuration :: int where
  "minDuration = - (2 ^ 63)"

text \<open>\<^verbatim>\<open>t.Add(d)\<close>.\<close>

definition Time_Add :: "Time \<Rightarrow> Duration \<Rightarrow> Time" where
  "Time_Add t d = t + sint d"

text \<open>
  \<^verbatim>\<open>t.Sub(u)\<close>: the difference, or the largest (smallest) duration when the difference
  does not fit into one.
\<close>

definition Time_Sub :: "Time \<Rightarrow> Time \<Rightarrow> Duration" where
  "Time_Sub t u =
     (let d = t - u in
      if d > maxDuration then word_of_int maxDuration
      else if d < minDuration then word_of_int minDuration
      else word_of_int d)"

section \<open>Package certificate: data\<close>

type_synonym error = string

text \<open>\<^verbatim>\<open>type CertificateType string\<close> and its three constants.\<close>

type_synonym CertificateType = string

definition CertificateTypeProduction :: CertificateType where
  "CertificateTypeProduction = ''production''"

definition CertificateTypeTemporary :: CertificateType where
  "CertificateTypeTemporary = ''temporary''"

definition CertificateTypeStaging :: CertificateType where
  "CertificateTypeStaging = ''staging''"

record Certificate =
  Domain :: string
  CertData :: "8 word list"
  PrivateKey :: "8 word list"
  Expiry :: Time
  Type :: CertificateType
  Created :: Time
  LastUpdated :: Time

text \<open>
  A \<^verbatim>\<open>*Certificate\<close> is a \<open>Certificate option\<close>: \<open>None\<close> is the nil pointer.
  \<^verbatim>\<open>TemporaryCertificate\<close> embeds such a pointer.
\<close>

record TemporaryCertificate =
  tc_Certificate :: "Certificate option"
  Reason :: string
  ValidityDays :: int
  IsTemporary :: bool

record CertificateStatus =
  cs_Domain :: string
  cs_Type :: CertificateType
  cs_Expiry :: Time
  TimeUntilExpiry :: Duration
  Status :: string

section \<open>Collaborators\<close>

text \<open>
  The manager talks to four collaborators through interfaces; the repository holds no
  implementation of them, so each method is a parameter: a function from its arguments and
  the collaborator's state to its results and the new state. The store has a state of its
  own, of type \<open>'s\<close>; the renewal authority, the distributor and the validator share the
  state \<open>'x\<close> of the world outside. A Go result \<^verbatim>\<open>(*Certificate, error)\<close> is a pair of
  options, \<open>None\<close> for nil. The context handed to every method is passed on unchanged and
  is left out.
\<close>

record 'x ACMEClient =
  RenewCertificate :: "string \<Rightarrow> 'x \<Rightarrow> (Certificate option \<times> error option) \<times> 'x"
  acme_ValidateCertificate :: "Certificate option \<Rightarrow> 'x \<Rightarrow> error option \<times> 'x"

record 's Storage =
  Store :: "Certificate option \<Rightarrow> 's \<Rightarrow> error option \<times> 's"
  Retrieve :: "string \<Rightarrow> 's \<Rightarrow> (Certificate option \<times> error option) \<times> 's"
  List :: "'s \<Rightarrow> (Certificate option list \<times> error option) \<times> 's"
  Delete :: "string \<Rightarrow> 's \<Rightarrow> error option \<times> 's"

record 'x Distributor =
  Deploy :: "Certificate option \<Rightarrow> string list \<Rightarrow> 'x \<Rightarrow> error option \<times> 'x"
  DeployTemporary :: "TemporaryCertificate \<Rightarrow> 'x \<Rightarrow> error option \<times> 'x"

record 'x Validator =
  ValidateCertificate :: "Certificate option \<Rightarrow> 'x \<Rightarrow> error option \<times> 'x"
  CheckExpiration :: "Certificate option \<Rightarrow> 'x \<Rightarrow> (Duration \<times> error option) \<times> 'x"

record ('s, 'x) Manager =
  acmeClient :: "'x ACMEClient"
  storage :: "'s Storage"
  distributor :: "'x Distributor"
  validator :: "'x Validator"

text \<open>The calls a manager makes on its collaborators, in the order it makes them.\<close>

datatype call =
    CallRenewCertificate string
  | CallAcmeValidateCertificate "Certificate option"
  | CallStore "Certificate option"
  | CallRetrieve string
  | CallList
  | CallDelete string
  | CallDeploy "Certificate option" "string list"
  | CallDeployTemporary TemporaryCertificate
  | CallValidateCertificate "Certificate option"
  | CallCheckExpiration "Certificate option"

text \<open>
  The world a manager runs in: the store, the world outside, the clock (the reading that
  the \<open>n\<close>-th call of \<^verbatim>\<open>time.Now()\<close> returns, and the number of readings taken so far) and
  the calls made so far.
\<close>

record ('s, 'x) world =
  storage_state :: 's
  outside_state :: 'x
  clock :: "nat \<Rightarrow> Time"
  clock_reads :: nat
  calls :: "call list"

text \<open>
  A function of the manager returns, or panics (on a nil pointer); either way it leaves a
  world behind.
\<close>

datatype ('r, 'w) outcome = Return 'r 'w | Panic string 'w

fun world_of :: "('r, 'w) outcome \<Rightarrow> 'w" where
  "world_of (Return r w) = w"
| "world_of (Panic msg w) = w"

definition time_Now :: "('s, 'x) world \<Rightarrow> Time \<times> ('s, 'x) world" where
  "time_Now w = (clock w (clock_reads w), w\<lparr>clock_reads := Suc (clock_reads w)\<rparr>)"

text \<open>\<^verbatim>\<open>time.Until(t)\<close> is \<^verbatim>\<open>t.Sub(time.Now())\<close>.\<close>

definition time_Until :: "Time \<Rightarrow> ('s, 'x) world \<Rightarrow> Duration \<times> ('s, 'x) world" where
  "time_Until t w = (let (now, w') = time_Now w in (Time_Sub t now, w'))"

text \<open>One definition per collaborator method the manager uses: the call, recorded.\<close>

definition call_RenewCertificate ::
  "('s, 'x) Manager \<Rightarrow> string \<Rightarrow> ('s, 'x) world \<Rightarrow> (Certificate option \<times> error option) \<times> ('s, 'x) world" where
  "call_RenewCertificate m domain w =
     (let (r, x) = RenewCertificate (acmeClient m) domain (outside_state w)
      in (r, w\<lparr>outside_state := x, calls := calls w @ [CallRenewCertificate domain]\<rparr>))"

definition call_ValidateCertificate ::
  "('s, 'x) Manager \<Rightarrow> Certificate option \<Rightarrow> ('s, 'x) world \<Rightarrow> error option \<times> ('s, 'x) world" where
  "call_ValidateCertificate m cert w =
     (let (r, x) = ValidateCertificate (validator m) cert (outside_state w)
      in (r, w\<lparr>outside_state := x, calls := calls w @ [CallValidateCertificate cert]\<rparr>))"

definition call_CheckExpiration ::
  "('s, 'x) Manager \<Rightarrow> Certificate option \<Rightarrow> ('s, 'x) world \<Rightarrow> (Duration \<times> error option) \<times> ('s, 'x) world" where
  "call_CheckExpiration m cert w =
     (let (r, x) = CheckExpiration (validator m) cert (outside_state w)
      in (r, w\<lparr>outside_state := x, calls := calls w @ [CallCheckExpiration cert]\<rparr>))"

definition call_Store ::
  "('s, 'x) Manager \<Rightarrow> Certificate option \<Rightarrow> ('s, 'x) world \<Rightarrow> error option \<times> ('s, 'x) world" where
  "call_Store m cert w =
     (let (r, s) = Store (storage m) cert (storage_state w)
      in (r, w\<lparr>storage_state := s, calls := calls w @ [CallStore cert]\<rparr>))"

definition call_Retrieve ::
  "('s, 'x) Manager \<Rightarrow> string \<Rightarrow> ('s, 'x) world \<Rightarrow> (Certificate option \<times> error option) \<times> ('s, 'x) world" where
  "call_Retrieve m domain w =
     (let (r, s) = Retrieve (storage m) domain (storage_state w)
      in (r, w\<lparr>storage_state := s, calls := calls w @ [CallRetrieve domain]\<rparr>))"

definition call_List ::
  "('s, 'x) Manager \<Rightarrow> ('s, 'x) world \<Rightarrow> (Certificate option list \<times> error option) \<times> ('s, 'x) world" where
  "call_List m w =
     (let (r, s) = List (storage m) (storage_state w)
      in (r, w\<lparr>storage_state := s, calls := calls w @ [CallList]\<rparr>))"

definition call_Deploy ::
  "('s, 'x) Manager \<Rightarrow> Certificate option \<Rightarrow> string list \<Rightarrow> ('s, 'x) world \<Rightarrow> error option \<times> ('s, 'x) world" where
  "call_Deploy m cert instances w =
     (let (r, x) = Deploy (distributor m) cert instances (outside_state w)
      in (r, w\<lparr>outside_state := x, calls := calls w @ [CallDeploy cert instances]\<rparr>))"

definition call_DeployTemporary ::
  "('s, 'x) Manager \<Rightarrow> TemporaryCertificate \<Rightarrow> ('s, 'x) world \<Rightarrow> error option \<times> ('s, 'x) world" where
  "call_DeployTemporary m cert w =
     (let (r, x) = DeployTemporary (distributor m) cert (outside_state w)
      in (r, w\<lparr>outside_state := x, calls := calls w @ [CallDeployTemporary cert]\<rparr>))"

section \<open>Package certificate: the manager\<close>

text \<open>\<^verbatim>\<open>determineStatus\<close>: the receiver is not used.\<close>

definition determineStatus :: "Duration \<Rightarrow> string" where
  "determineStatus timeUntilExpiry =
     (if timeUntilExpiry \<le>s 0 then ''expired''
      else if timeUntilExpiry \<le>s 7 * 24 * Hour then ''expiring''
      else if timeUntilExpiry \<le>s 30 * 24 * Hour then ''renewal_due''
      else ''valid'')"

text \<open>
  \<^verbatim>\<open>GetCertificateStatus\<close>. The certificate pointer is first read when the status is
  built, after both calls: a nil pointer returned without an error panics there.
\<close>

definition GetCertificateStatus ::
  "('s, 'x) Manager \<Rightarrow> string \<Rightarrow> ('s, 'x) world
     \<Rightarrow> (CertificateStatus option \<times> error option, ('s, 'x) world) outcome" where
  "GetCertificateStatus m domain w0 =
     (let ((cert, err), w1) = call_Retrieve m domain w0 in
      if err \<noteq> None then Return (None, err) w1
      else
        let ((timeUntilExpiry, err), w2) = call_CheckExpiration m cert w1 in
        if err \<noteq> None then Return (None, err) w2
        else
          (case cert of
             None \<Rightarrow> Panic ''invalid memory address or nil pointer dereference'' w2
           | Some c \<Rightarrow>
               Return
                 (Some \<lparr>cs_Domain = domain, cs_Type = Type c, cs_Expiry = Expiry c,
                         TimeUntilExpiry = timeUntilExpiry,
                         Status = determineStatus timeUntilExpiry\<rparr>,
                  None) w2))"

text \<open>\<^verbatim>\<open>renewCertificate\<close>: renew, validate, store, deploy; the first error is returned.\<close>

definition renewCertificate ::
  "('s, 'x) Manager \<Rightarrow> string \<Rightarrow> ('s, 'x) world \<Rightarrow> error option \<times> ('s, 'x) world" where
  "renewCertificate m domain w0 =
     (let ((newCert, err), w1) = call_RenewCertificate m domain w0 in
      if err \<noteq> None then (err, w1)
      else
        let (err, w2) = call_ValidateCertificate m newCert w1 in
        if err \<noteq> None then (err, w2)
        else
          let (err, w3) = call_Store m newCert w2 in
          if err \<noteq> None then (err, w3)
          else
            let instances = [] in
            call_Deploy m newCert instances w3)"

text \<open>\<^verbatim>\<open>generateSelfSignedCertificate\<close> is a stub: it leaves the certificate as it is and returns nil.\<close>

definition generateSelfSignedCertificate ::
  "('s, 'x) Manager \<Rightarrow> TemporaryCertificate \<Rightarrow> error option \<times> TemporaryCertificate" where
  "generateSelfSignedCertificate m tempCert = (None, tempCert)"

text \<open>
  \<^verbatim>\<open>deployTemporaryCertificate\<close>. The composite literal reads the clock three times, left to
  right: for \<^verbatim>\<open>Created\<close>, for \<^verbatim>\<open>LastUpdated\<close> and for \<^verbatim>\<open>Expiry\<close>. The fields it does not
  set are empty.
\<close>

definition deployTemporaryCertificate ::
  "('s, 'x) Manager \<Rightarrow> string \<Rightarrow> string \<Rightarrow> ('s, 'x) world \<Rightarrow> error option \<times> ('s, 'x) world" where
  "deployTemporaryCertificate m domain reason w0 =
     (let (created, w1) = time_Now w0;
          (lastUpdated, w2) = time_Now w1;
          (now, w3) = time_Now w2;
          tempCert =
            \<lparr>tc_Certificate =
               Some \<lparr>Domain = domain, CertData = [], PrivateKey = [],
                     Expiry = Time_Add now (14 * 24 * Hour),
                     Type = CertificateTypeTemporary,
                     Created = created, LastUpdated = lastUpdated\<rparr>,
             Reason = reason, ValidityDays = 14, IsTemporary = True\<rparr>;
          (err, tempCert) = generateSelfSignedCertificate m tempCert
      in if err \<noteq> None then (err, w3)
         else call_DeployTemporary m tempCert w3)"

text \<open>
  The loop of \<^verbatim>\<open>checkAndRenewCertificates\<close> over the listed certificates. Reading
  \<^verbatim>\<open>cert.Expiry\<close> through a nil pointer panics. The error of the temporary deployment is
  dropped.
\<close>

fun checkAndRenewCertificates_loop ::
  "('s, 'x) Manager \<Rightarrow> Certificate option list \<Rightarrow> ('s, 'x) world
     \<Rightarrow> (unit, ('s, 'x) world) outcome" where
  "checkAndRenewCertificates_loop m [] w = Return () w"
| "checkAndRenewCertificates_loop m (None # certificates) w =
     Panic ''invalid memory address or nil pointer dereference'' w"
| "checkAndRenewCertificates_loop m (Some cert # certificates) w =
     (let (d, w1) = time_Until (Expiry cert) w in
      if d \<le>s 30 * 24 * Hour then
        (let (err, w2) = renewCertificate m (Domain cert) w1 in
         if err \<noteq> None then
           (let (err, w3) = deployTemporaryCertificate m (Domain cert) ''renewal_failed'' w2
            in checkAndRenewCertificates_loop m certificates w3)
         else checkAndRenewCertificates_loop m certificates w2)
      else checkAndRenewCertificates_loop m certificates w1)"

definition checkAndRenewCertificates ::
  "('s, 'x) Manager \<Rightarrow> ('s, 'x) world \<Rightarrow> (error option, ('s, 'x) world) outcome" where
  "checkAndRenewCertificates m w0 =
     (let ((certificates, err), w1) = call_List m w0 in
      if err \<noteq> None then Return err w1
      else
        (case checkAndRenewCertificates_loop m certificates w1 of
           Panic msg w2 \<Rightarrow> Panic msg w2
         | Return u w2 \<Rightarrow> Return None w2))"

text \<open>
  \<^verbatim>\<open>MonitorCertificates\<close> loops over a \<^verbatim>\<open>select\<close>: each round takes what arrives, the
  context's end or a tick of the daily ticker. The arrivals are a parameter; when they are
  used up, the loop is still waiting in its \<^verbatim>\<open>select\<close>. \<open>ctxErr\<close> is what \<^verbatim>\<open>ctx.Err()\<close>
  returns once the context has ended. A panic of the sweep ends the process.
\<close>

datatype arrival = CtxDone | Tick

datatype 'w monitoring = Returned "error option" 'w | Waiting 'w | Crashed string 'w

fun MonitorCertificates ::
  "('s, 'x) Manager \<Rightarrow> error option \<Rightarrow> arrival list \<Rightarrow> ('s, 'x) world
     \<Rightarrow> ('s, 'x) world monitoring" where
  "MonitorCertificates m ctxErr [] w = Waiting w"
| "MonitorCertificates m ctxErr (CtxDone # arrivals) w = Returned ctxErr w"
| "MonitorCertificates m ctxErr (Tick # arrivals) w =
     (case checkAndRenewCertificates m w of
        Panic msg w' \<Rightarrow> Crashed msg w'
      | Return err w' \<Rightarrow>
          if err \<noteq> None then MonitorCertificates m ctxErr arrivals w'
          else MonitorCertificates m ctxErr arrivals w')"

section \<open>Package queue\<close>

text \<open>\<^verbatim>\<open>type JobType string\<close> and its constants.\<close>

type_synonym JobType = string

definition JobTypeCertificateRenewal :: JobType where
  "JobTypeCertificateRenewal = ''certificate_renewal''"

definition JobTypeCertificateValidation :: JobType where
  "JobTypeCertificateValidation = ''certificate_validation''"

definition JobTypeConfigUpdate :: JobType where
  "JobTypeConfigUpdate = ''config_update''"

definition JobTypeLogProcessing :: JobType where
  "JobTypeLogProcessing = ''log_processing''"

definition JobTypeAnalytics :: JobType where
  "JobTypeAnalytics = ''analytics''"

definition JobTypeDatabaseCleanup :: JobType where
  "JobTypeDatabaseCleanup = ''database_cleanup''"

definition JobTypeIntegration :: JobType where
  "JobTypeIntegration = ''integration''"

text \<open>A job; \<open>'v\<close> is the type of the values of its payload.\<close>

record 'v Job =
  ID :: string
  job_Type :: JobType
  Payload :: "string \<rightharpoonup> 'v"
  Priority :: int
  Retry :: int
  MaxRetry :: int
  job_Created :: Time

text \<open>
  A buffered channel: the elements waiting in its buffer, oldest first, and its capacity.
  A send appends to the buffer, a receive takes its head. The nil channel of a service that
  was not made by \<^verbatim>\<open>New\<close> behaves as a channel of capacity 0: no send on it proceeds.
\<close>

record 'a chan =
  buf :: "'a list"
  cap :: nat

definition make_chan :: "nat \<Rightarrow> 'a chan" where
  "make_chan n = \<lparr>buf = [], cap = n\<rparr>"

text \<open>
  The send case of a \<^verbatim>\<open>select\<close> that has a \<^verbatim>\<open>default\<close>: the send proceeds when the buffer
  has room, and the default case is taken (\<open>None\<close>) when it has none.
\<close>

definition select_send :: "'a chan \<Rightarrow> 'a \<Rightarrow> 'a chan option" where
  "select_send ch v =
     (if length (buf ch) < cap ch then Some (ch\<lparr>buf := buf ch @ [v]\<rparr>) else None)"

text \<open>The receive case of a \<^verbatim>\<open>select\<close>: ready when the buffer holds an element.\<close>

definition select_recv :: "'a chan \<Rightarrow> ('a \<times> 'a chan) option" where
  "select_recv ch =
     (case buf ch of [] \<Rightarrow> None | v # rest \<Rightarrow> Some (v, ch\<lparr>buf := rest\<rparr>))"

record 'v Service =
  jobs :: "'v Job chan"
  workers :: int

definition queue_New :: "'v Service" where
  "queue_New = \<lparr>jobs = make_chan 1000, workers = 5\<rparr>"

definition ErrQueueFull :: error where
  "ErrQueueFull = ''job queue is full''"

definition AddJob :: "'v Service \<Rightarrow> 'v Job \<Rightarrow> error option \<times> 'v Service" where
  "AddJob s job =
     (case select_send (jobs s) job of
        Some ch \<Rightarrow> (None, s\<lparr>jobs := ch\<rparr>)
      | None \<Rightarrow> (Some ErrQueueFull, s))"

text \<open>
  What the standard logger was asked to print: each \<^verbatim>\<open>log.Printf\<close> with its format and
  its arguments.
\<close>

datatype arg = S string | D int

datatype log_entry = Printf string "arg list"

text \<open>The handlers are stubs: each logs one line and returns nothing.\<close>

definition processCertificateRenewal ::
  "'v Service \<Rightarrow> 'v Job \<Rightarrow> log_entry list \<Rightarrow> 'v Service \<times> log_entry list" where
  "processCertificateRenewal s job lg =
     (s, lg @ [Printf ''Processing certificate renewal job %s'' [S (ID job)]])"

definition processCertificateValidation ::
  "'v Service \<Rightarrow> 'v Job \<Rightarrow> log_entry list \<Rightarrow> 'v Service \<times> log_entry list" where
  "processCertificateValidation s job lg =
     (s, lg @ [Printf ''Processing certificate validation job %s'' [S (ID job)]])"

definition processConfigUpdate ::
  "'v Service \<Rightarrow> 'v Job \<Rightarrow> log_entry list \<Rightarrow> 'v Service \<times> log_entry list" where
  "processConfigUpdate s job lg =
     (s, lg @ [Printf ''Processing config update job %s'' [S (ID job)]])"

definition processLogProcessing ::
  "'v Service \<Rightarrow> 'v Job \<Rightarrow> log_entry list \<Rightarrow> 'v Service \<times> log_entry list" where
  "processLogProcessing s job lg =
     (s, lg @ [Printf ''Processing log processing job %s'' [S (ID job)]])"

definition processAnalytics ::
  "'v Service \<Rightarrow> 'v Job \<Rightarrow> log_entry list \<Rightarrow> 'v Service \<times> log_entry list" where
  "processAnalytics s job lg =
     (s, lg @ [Printf ''Processing analytics job %s'' [S (ID job)]])"

definition processDatabaseCleanup ::
  "'v Service \<Rightarrow> 'v Job \<Rightarrow> log_entry list \<Rightarrow> 'v Service \<times> log_entry list" where
  "processDatabaseCleanup s job lg =
     (s, lg @ [Printf ''Processing database cleanup job %s'' [S (ID job)]])"

definition processIntegration ::
  "'v Service \<Rightarrow> 'v Job \<Rightarrow> log_entry list \<Rightarrow> 'v Service \<times> log_entry list" where
  "processIntegration s job lg =
     (s, lg @ [Printf ''Processing integration job %s'' [S (ID job)]])"

text \<open>\<^verbatim>\<open>processJob\<close>: one log line, then the handler of the job's type.\<close>

definition processJob ::
  "'v Service \<Rightarrow> 'v Job \<Rightarrow> log_entry list \<Rightarrow> 'v Service \<times> log_entry list" where
  "processJob s job lg0 =
     (let lg = lg0 @ [Printf ''Processing job %s of type %s'' [S (ID job), S (job_Type job)]] in
      if job_Type job = JobTypeCertificateRenewal then processCertificateRenewal s job lg
      else if job_Type job = JobTypeCertificateValidation then processCertificateValidation s job lg
      else if job_Type job = JobTypeConfigUpdate then processConfigUpdate s job lg
      else if job_Type job = JobTypeLogProcessing then processLogProcessing s job lg
      else if job_Type job = JobTypeAnalytics then processAnalytics s job lg
      else if job_Type job = JobTypeDatabaseCleanup then processDatabaseCleanup s job lg
      else if job_Type job = JobTypeIntegration then processIntegration s job lg
      else (s, lg @ [Printf ''Unknown job type: %s'' [S (job_Type job)]]))"

text \<open>
  One round of the loop of \<^verbatim>\<open>worker\<close> in which the receive case of its \<^verbatim>\<open>select\<close> is
  taken: the job at the head of the channel is received and processed. \<open>None\<close> when the
  channel is empty: the worker keeps waiting.
\<close>

definition worker_round ::
  "'v Service \<Rightarrow> log_entry list \<Rightarrow> ('v Job \<times> 'v Service \<times> log_entry list) option" where
  "worker_round s lg =
     (case select_recv (jobs s) of
        None \<Rightarrow> None
      | Some (job, ch) \<Rightarrow> Some (job, processJob (s\<lparr>jobs := ch\<rparr>) job lg))"

text \<open>
  The service at work: callers submit jobs with \<^verbatim>\<open>AddJob\<close> while the workers take their
  rounds, in some order. An event is one of the two; a run of events yields what was
  observed at each, and the service and the log at the end.
\<close>

datatype 'v event = Submit "'v Job" | WorkerRound int

datatype 'v observation =
    Accepted "'v Job"
  | Refused "'v Job" error
  | Dequeued int "'v Job"
  | Idle int

fun step ::
  "'v event \<Rightarrow> 'v Service \<times> log_entry list \<Rightarrow> 'v observation \<times> 'v Service \<times> log_entry list" where
  "step (Submit job) (s, lg) =
     (case AddJob s job of
        (None, s') \<Rightarrow> (Accepted job, s', lg)
      | (Some e, s') \<Rightarrow> (Refused job e, s', lg))"
| "step (WorkerRound n) (s, lg) =
     (case worker_round s lg of
        None \<Rightarrow> (Idle n, s, lg)
      | Some (job, s', lg') \<Rightarrow> (Dequeued n job, s', lg'))"

fun run ::
  "'v event list \<Rightarrow> 'v Service \<times> log_entry list
     \<Rightarrow> 'v observation list \<times> 'v Service \<times> log_entry list" where
  "run [] st = ([], st)"
| "run (e # es) st =
     (let (ob, st') = step e st; (obs, st'') = run es st' in (ob # obs, st''))"


fun accepted :: "'v observation list \<Rightarrow> 'v Job list" where
  "accepted [] = []"
| "accepted (Accepted job # obs) = job # accepted obs"
| "accepted (ob # obs) = accepted obs"

fun dequeued :: "'v observation list \<Rightarrow> 'v Job list" where
  "dequeued [] = []"
| "dequeued (Dequeued n job # obs) = job # dequeued obs"
| "dequeued (ob # obs) = dequeued obs"

section \<open>Units and projections used in the statements\<close>

text \<open>The number of nanoseconds in \<open>n\<close> days.\<close>

definition days :: "int \<Rightarrow> int" where
  "days n = n * 86400000000000"

text \<open>
  The test of the sweep on a certificate, at the clock reading \<open>now\<close>: at most 30 days are left.
\<close>

definition due :: "Certificate \<Rightarrow> Time \<Rightarrow> bool" where
  "due cert now = (Time_Sub (Expiry cert) now \<le>s 30 * 24 * Hour)"

text \<open>
  The clock \<open>clk\<close> is steady for the certificates \<open>cs\<close>: none of them crosses the 30-day
  mark between two of its readings.
\<close>

definition steady :: "Certificate list \<Rightarrow> (nat \<Rightarrow> Time) \<Rightarrow> bool" where
  "steady cs clk = (\<forall>c\<in>set cs. \<forall>i. due c (clk i) = due c (clk 0))"

text \<open>The domains the renewal authority was asked to renew, in order.\<close>

fun renewals :: "call list \<Rightarrow> string list" where
  "renewals [] = []"
| "renewals (CallRenewCertificate domain # cs) = domain # renewals cs"
| "renewals (c # cs) = renewals cs"

text \<open>The calls that write to the store.\<close>

fun store_write :: "call \<Rightarrow> bool" where
  "store_write (CallStore cert) = True"
| "store_write (CallDelete domain) = True"
| "store_write c = False"

section \<open>Collaborators and inputs of the examples\<close>

text \<open>
  A store in memory (its state is the list of the certificates it holds), a store that is
  unavailable, an authority that is unreachable, one that issues a certificate, a validator
  that accepts, one that rejects, a distributor that reaches every instance, four managers
  made of them, and two clocks.
\<close>

definition memory_storage :: "Certificate list Storage" where
  "memory_storage =
     \<lparr>Store = (\<lambda>cert s. case cert of
                  None \<Rightarrow> (Some ''no certificate'', s)
                | Some c \<Rightarrow> (None, c # filter (\<lambda>d. Domain d \<noteq> Domain c) s)),
      Retrieve = (\<lambda>domain s. case find (\<lambda>c. Domain c = domain) s of
                  None \<Rightarrow> ((None, Some ''not found''), s)
                | Some c \<Rightarrow> ((Some c, None), s)),
      List = (\<lambda>s. ((map Some s, None), s)),
      Delete = (\<lambda>domain s. (None, filter (\<lambda>c. Domain c \<noteq> domain) s))\<rparr>"

definition broken_storage :: "Certificate list Storage" where
  "broken_storage =
     \<lparr>Store = (\<lambda>cert s. (Some ''store unavailable'', s)),
      Retrieve = (\<lambda>domain s. ((None, Some ''store unavailable''), s)),
      List = (\<lambda>s. (([], Some ''store unavailable''), s)),
      Delete = (\<lambda>domain s. (Some ''store unavailable'', s))\<rparr>"

definition unreachable_acme :: "unit ACMEClient" where
  "unreachable_acme =
     \<lparr>RenewCertificate = (\<lambda>domain x. ((None, Some ''authority unreachable''), x)),
      acme_ValidateCertificate = (\<lambda>cert x. (None, x))\<rparr>"

definition issuing_acme :: "unit ACMEClient" where
  "issuing_acme =
     \<lparr>RenewCertificate = (\<lambda>domain x.
        ((Some \<lparr>Domain = domain, CertData = [1], PrivateKey = [2], Expiry = days 90,
                 Type = CertificateTypeProduction, Created = 0, LastUpdated = 0\<rparr>, None), x)),
      acme_ValidateCertificate = (\<lambda>cert x. (None, x))\<rparr>"

definition accepting_validator :: "unit Validator" where
  "accepting_validator =
     \<lparr>ValidateCertificate = (\<lambda>cert x. (None, x)),
      CheckExpiration = (\<lambda>cert x. case cert of
                  None \<Rightarrow> ((0, Some ''no certificate''), x)
                | Some c \<Rightarrow> ((Time_Sub (Expiry c) 0, None), x))\<rparr>"

definition rejecting_validator :: "unit Validator" where
  "rejecting_validator =
     \<lparr>ValidateCertificate = (\<lambda>cert x. (Some ''certificate rejected'', x)),
      CheckExpiration = (\<lambda>cert x. ((0, Some ''certificate rejected''), x))\<rparr>"

definition reaching_distributor :: "unit Distributor" where
  "reaching_distributor =
     \<lparr>Deploy = (\<lambda>cert instances x. (None, x)),
      DeployTemporary = (\<lambda>cert x. (None, x))\<rparr>"

definition stuck_manager :: "(Certificate list, unit) Manager" where
  "stuck_manager =
     \<lparr>acmeClient = unreachable_acme, storage = memory_storage,
      distributor = reaching_distributor, validator = accepting_validator\<rparr>"

definition doubting_manager :: "(Certificate list, unit) Manager" where
  "doubting_manager =
     \<lparr>acmeClient = issuing_acme, storage = memory_storage,
      distributor = reaching_distributor, validator = rejecting_validator\<rparr>"

definition blind_manager :: "(Certificate list, unit) Manager" where
  "blind_manager =
     \<lparr>acmeClient = issuing_acme, storage = broken_storage,
      distributor = reaching_distributor, validator = accepting_validator\<rparr>"

definition working_manager :: "(Certificate list, unit) Manager" where
  "working_manager =
     \<lparr>acmeClient = issuing_acme, storage = memory_storage,
      distributor = reaching_distributor, validator = accepting_validator\<rparr>"

definition example_cert :: "string \<Rightarrow> Time \<Rightarrow> Certificate" where
  "example_cert domain expiry =
     \<lparr>Domain = domain, CertData = [1], PrivateKey = [2], Expiry = expiry,
      Type = CertificateTypeProduction, Created = 0, LastUpdated = 0\<rparr>"

text \<open>A world whose clock stands still at 0, and one whose clock advances by a nanosecond per reading.\<close>

definition still_world :: "Certificate list \<Rightarrow> (Certificate list, unit) world" where
  "still_world certs =
     \<lparr>storage_state = certs, outside_state = (), clock = (\<lambda>n. 0), clock_reads = 0, calls = []\<rparr>"

definition ticking_world :: "Certificate list \<Rightarrow> (Certificate list, unit) world" where
  "ticking_world certs =
     \<lparr>storage_state = certs, outside_state = (), clock = (\<lambda>n. int n), clock_reads = 0, calls = []\<rparr>"

text \<open>A job of three retries that has used none, and a service whose channel is full.\<close>

definition example_job :: "string \<Rightarrow> int \<Rightarrow> unit Job" where
  "example_job name priority =
     \<lparr>ID = name, job_Type = JobTypeCertificateRenewal, Payload = Map.empty,
      Priority = priority, Retry = 0, MaxRetry = 3, job_Created = 0\<rparr>"

definition full_service :: "unit Service" where
  "full_service =
     \<lparr>jobs = \<lparr>buf = replicate 1000 (example_job ''waiting'' 1000), cap = 1000\<rparr>, workers = 5\<rparr>"

section \<open>The status of a certificate\<close>

lemma sle_zero: "((d::Duration) \<le>s 0) = (sint d \<le> 0)"
  by (simp add: word_sle_eq)

lemma sle_days7: "(d \<le>s 7 * 24 * Hour) = (sint d \<le> days 7)"
  by (simp add: word_sle_eq Hour_def days_def)

lemma sle_days30: "(d \<le>s 30 * 24 * Hour) = (sint d \<le> days 30)"
  by (simp add: word_sle_eq Hour_def days_def)

lemma determineStatus_sint:
  "determineStatus d =
     (if sint d \<le> 0 then ''expired''
      else if sint d \<le> days 7 then ''expiring''
      else if sint d \<le> days 30 then ''renewal_due''
      else ''valid'')"
  unfolding determineStatus_def sle_days7 sle_days30 sle_zero by (rule refl)

lemma GetCertificateStatus_Status:
  "GetCertificateStatus m domain w = Return (Some st, err) w' \<Longrightarrow>
   Status st = determineStatus (TimeUntilExpiry st)"
  by (auto simp: GetCertificateStatus_def Let_def split: prod.splits if_splits option.splits)

text \<open>
  Claim C1. The status is a function of the time until expiry \<open>d\<close> alone, read as a signed
  64-bit count of nanoseconds: expired when \<open>d \<le> 0\<close>, expiring when \<open>0 < d \<le> 7 days\<close>,
  renewal due when \<open>7 days < d \<le> 30 days\<close>, valid when \<open>d > 30 days\<close>; and the status that
  \<^verbatim>\<open>GetCertificateStatus\<close> returns is this function of the time until expiry it reports.
\<close>

theorem status_classification:
  "(sint d \<le> 0 \<longrightarrow> determineStatus d = ''expired'') \<and>
   (0 < sint d \<and> sint d \<le> days 7 \<longrightarrow> determineStatus d = ''expiring'') \<and>
   (days 7 < sint d \<and> sint d \<le> days 30 \<longrightarrow> determineStatus d = ''renewal_due'') \<and>
   (days 30 < sint d \<longrightarrow> determineStatus d = ''valid'') \<and>
   (GetCertificateStatus m domain w = Return (Some st, err) w' \<longrightarrow>
      Status st = determineStatus (TimeUntilExpiry st))"
proof -
  have "days 7 \<le> days 30" by (simp add: days_def)
  moreover have "0 \<le> days 7" by (simp add: days_def)
  ultimately show ?thesis
    using GetCertificateStatus_Status [of m domain w st err w']
    by (simp add: determineStatus_sint)
qed

text \<open>
  The four classes at one second past expiry and at 3, 20 and 60 days before it, and the
  status returned for a stored certificate with 3 days left.
\<close>

theorem status_classification_witness:
  "determineStatus (word_of_int (- 1000000000)) = ''expired'' \<and>
   determineStatus (word_of_int (days 3)) = ''expiring'' \<and>
   determineStatus (word_of_int (days 20)) = ''renewal_due'' \<and>
   determineStatus (word_of_int (days 60)) = ''valid'' \<and>
   (\<exists>st w'. GetCertificateStatus working_manager ''a.example''
               (still_world [example_cert ''a.example'' (days 3)]) = Return (Some st, None) w' \<and>
            TimeUntilExpiry st = word_of_int (days 3) \<and> Status st = ''expiring'')"
proof -
  let ?w = "still_world [example_cert ''a.example'' (days 3)]"
  have s1: "sint (word_of_int (- 1000000000) :: Duration) = - 1000000000" by simp
  have s2: "sint (word_of_int (days 3) :: Duration) = days 3" by (simp add: days_def)
  have s3: "sint (word_of_int (days 20) :: Duration) = days 20" by (simp add: days_def)
  have s4: "sint (word_of_int (days 60) :: Duration) = days 60" by (simp add: days_def)
  have a: "determineStatus (word_of_int (- 1000000000)) = ''expired''"
    using status_classification [where d = "word_of_int (- 1000000000)", THEN conjunct1] s1
    by simp
  have b: "determineStatus (word_of_int (days 3)) = ''expiring''"
    using status_classification [where d = "word_of_int (days 3)", THEN conjunct2, THEN conjunct1] s2
    by (simp add: days_def)
  have c: "determineStatus (word_of_int (days 20)) = ''renewal_due''"
    using status_classification [where d = "word_of_int (days 20)",
        THEN conjunct2, THEN conjunct2, THEN conjunct1] s3
    by (simp add: days_def)
  have d: "determineStatus (word_of_int (days 60)) = ''valid''"
    using status_classification [where d = "word_of_int (days 60)",
        THEN conjunct2, THEN conjunct2, THEN conjunct2, THEN conjunct1] s4
    by (simp add: days_def)
  obtain st w' where
    g: "GetCertificateStatus working_manager ''a.example'' ?w = Return (Some st, None) w'"
    and t: "TimeUntilExpiry st = word_of_int (days 3)"
    by (simp add: GetCertificateStatus_def call_Retrieve_def call_CheckExpiration_def
        working_manager_def memory_storage_def accepting_validator_def still_world_def
        example_cert_def Time_Sub_def maxDuration_def minDuration_def days_def Let_def)
  have "Status st = determineStatus (TimeUntilExpiry st)"
    using status_classification [where m = working_manager and domain = "''a.example''"
        and w = ?w and st = st and err = None and w' = w',
        THEN conjunct2, THEN conjunct2, THEN conjunct2, THEN conjunct2] g
    by simp
  with t b have "Status st = ''expiring''" by simp
  with a b c d g t show ?thesis by blast
qed

section \<open>Renewal\<close>

lemma call_RenewCertificate_eq:
  "call_RenewCertificate m domain w =
     (fst (RenewCertificate (acmeClient m) domain (outside_state w)),
      w\<lparr>outside_state := snd (RenewCertificate (acmeClient m) domain (outside_state w)),
        calls := calls w @ [CallRenewCertificate domain]\<rparr>)"
  by (simp add: call_RenewCertificate_def split: prod.splits)

lemma call_ValidateCertificate_eq:
  "call_ValidateCertificate m cert w =
     (fst (ValidateCertificate (validator m) cert (outside_state w)),
      w\<lparr>outside_state := snd (ValidateCertificate (validator m) cert (outside_state w)),
        calls := calls w @ [CallValidateCertificate cert]\<rparr>)"
  by (simp add: call_ValidateCertificate_def split: prod.splits)

lemma call_Store_eq:
  "call_Store m cert w =
     (fst (Store (storage m) cert (storage_state w)),
      w\<lparr>storage_state := snd (Store (storage m) cert (storage_state w)),
        calls := calls w @ [CallStore cert]\<rparr>)"
  by (simp add: call_Store_def split: prod.splits)

lemma call_Deploy_eq:
  "call_Deploy m cert instances w =
     (fst (Deploy (distributor m) cert instances (outside_state w)),
      w\<lparr>outside_state := snd (Deploy (distributor m) cert instances (outside_state w)),
        calls := calls w @ [CallDeploy cert instances]\<rparr>)"
  by (simp add: call_Deploy_def split: prod.splits)

lemma call_DeployTemporary_eq:
  "call_DeployTemporary m cert w =
     (fst (DeployTemporary (distributor m) cert (outside_state w)),
      w\<lparr>outside_state := snd (DeployTemporary (distributor m) cert (outside_state w)),
        calls := calls w @ [CallDeployTemporary cert]\<rparr>)"
  by (simp add: call_DeployTemporary_def split: prod.splits)

lemma call_List_eq:
  "call_List m w =
     (fst (List (storage m) (storage_state w)),
      w\<lparr>storage_state := snd (List (storage m) (storage_state w)),
        calls := calls w @ [CallList]\<rparr>)"
  by (simp add: call_List_def split: prod.splits)

lemmas call_eqs = call_RenewCertificate_eq call_ValidateCertificate_eq call_Store_eq
  call_Deploy_eq call_DeployTemporary_eq call_List_eq

text \<open>What \<^verbatim>\<open>renewCertificate\<close> calls, stores and returns, in each case.\<close>

lemma renewCertificate_calls:
  "calls (snd (renewCertificate m domain w)) =
     calls w @
     (let r = RenewCertificate (acmeClient m) domain (outside_state w);
          newCert = fst (fst r);
          v = ValidateCertificate (validator m) newCert (snd r);
          s = Store (storage m) newCert (storage_state w)
      in if snd (fst r) \<noteq> None then [CallRenewCertificate domain]
         else if fst v \<noteq> None then [CallRenewCertificate domain, CallValidateCertificate newCert]
         else if fst s \<noteq> None then
           [CallRenewCertificate domain, CallValidateCertificate newCert, CallStore newCert]
         else [CallRenewCertificate domain, CallValidateCertificate newCert, CallStore newCert,
               CallDeploy newCert []])"
  by (simp add: renewCertificate_def call_eqs Let_def split: prod.splits)

lemma renewCertificate_storage:
  "storage_state (snd (renewCertificate m domain w)) =
     (let r = RenewCertificate (acmeClient m) domain (outside_state w);
          newCert = fst (fst r);
          v = ValidateCertificate (validator m) newCert (snd r)
      in if snd (fst r) \<noteq> None \<or> fst v \<noteq> None then storage_state w
         else snd (Store (storage m) newCert (storage_state w)))"
  by (simp add: renewCertificate_def call_eqs Let_def split: prod.splits)

lemma renewCertificate_clock:
  "clock (snd (renewCertificate m domain w)) = clock w \<and>
   clock_reads (snd (renewCertificate m domain w)) = clock_reads w"
  by (simp add: renewCertificate_def call_eqs Let_def split: prod.splits)

lemma renewCertificate_ok:
  "fst (renewCertificate m domain w) = None \<Longrightarrow>
     (let r = RenewCertificate (acmeClient m) domain (outside_state w);
          newCert = fst (fst r);
          v = ValidateCertificate (validator m) newCert (snd r);
          s = Store (storage m) newCert (storage_state w)
      in snd (fst r) = None \<and> fst v = None \<and> fst s = None)"
  by (simp add: renewCertificate_def call_eqs Let_def split: prod.splits if_splits)

text \<open>
  Claim C3. \<^verbatim>\<open>renewCertificate\<close> calls its collaborators in the order renew, validate,
  store, deploy, and stops at the first error: the calls it makes are the first \<open>k\<close> of the
  four, with \<open>k\<close> at least 1. When the renewal or the validation returns an error, no call
  writes to the store and the state of the store, and with it the certificate stored for
  the domain, is what it was; when \<^verbatim>\<open>renewCertificate\<close> returns nil, all four calls were
  made.
\<close>

theorem renewCertificate_validates_before_store:
  "let r = RenewCertificate (acmeClient m) domain (outside_state w);
       newCert = fst (fst r);
       v = ValidateCertificate (validator m) newCert (snd r);
       w' = snd (renewCertificate m domain w);
       made = drop (length (calls w)) (calls w')
   in calls w' = calls w @ made \<and>
      (\<exists>k. 1 \<le> k \<and> k \<le> 4 \<and>
           made = take k [CallRenewCertificate domain, CallValidateCertificate newCert,
                          CallStore newCert, CallDeploy newCert []]) \<and>
      (snd (fst r) \<noteq> None \<or> fst v \<noteq> None \<longrightarrow>
         storage_state w' = storage_state w \<and>
         Retrieve (storage m) domain (storage_state w') =
           Retrieve (storage m) domain (storage_state w) \<and>
         \<not> list_ex store_write made) \<and>
      (fst (renewCertificate m domain w) = None \<longrightarrow>
         made = [CallRenewCertificate domain, CallValidateCertificate newCert,
                 CallStore newCert, CallDeploy newCert []])"
proof -
  let ?r = "RenewCertificate (acmeClient m) domain (outside_state w)"
  let ?c = "fst (fst ?r)"
  let ?v = "ValidateCertificate (validator m) ?c (snd ?r)"
  let ?s = "Store (storage m) ?c (storage_state w)"
  let ?w = "snd (renewCertificate m domain w)"
  let ?made = "drop (length (calls w)) (calls ?w)"
  let ?all = "[CallRenewCertificate domain, CallValidateCertificate ?c, CallStore ?c, CallDeploy ?c []]"
  have made: "?made =
      (if snd (fst ?r) \<noteq> None then take 1 ?all
       else if fst ?v \<noteq> None then take 2 ?all
       else if fst ?s \<noteq> None then take 3 ?all
       else take 4 ?all)"
    by (simp add: renewCertificate_calls Let_def)
  have a: "calls ?w = calls w @ ?made"
    by (simp add: renewCertificate_calls Let_def)
  have b: "\<exists>k. 1 \<le> k \<and> k \<le> 4 \<and> ?made = take k ?all"
  proof -
    consider "?made = take 1 ?all" | "?made = take 2 ?all" | "?made = take 3 ?all" | "?made = take 4 ?all"
      using made by presburger
    then show ?thesis
    proof cases
      case 1 then show ?thesis by (intro exI [of _ 1]) simp
    next
      case 2 then show ?thesis by (intro exI [of _ 2]) simp
    next
      case 3 then show ?thesis by (intro exI [of _ 3]) simp
    next
      case 4 then show ?thesis by (intro exI [of _ 4]) simp
    qed
  qed
  have c: "snd (fst ?r) \<noteq> None \<or> fst ?v \<noteq> None \<longrightarrow>
      storage_state ?w = storage_state w \<and>
      Retrieve (storage m) domain (storage_state ?w) = Retrieve (storage m) domain (storage_state w) \<and>
      \<not> list_ex store_write ?made"
    using made by (auto simp: renewCertificate_storage Let_def)
  have d: "fst (renewCertificate m domain w) = None \<longrightarrow> ?made = ?all"
    using made renewCertificate_ok [of m domain w] by (auto simp: Let_def)
  from a b c d show ?thesis unfolding Let_def by blast
qed

text \<open>
  An authority that is unreachable, a validator that rejects, and a renewal that goes
  through: one call, two calls with the store untouched, and all four calls.
\<close>

theorem renewCertificate_validates_before_store_witness:
  "storage_state (snd (renewCertificate stuck_manager ''a.example''
      (still_world [example_cert ''a.example'' (days 5)]))) = [example_cert ''a.example'' (days 5)] \<and>
   calls (snd (renewCertificate stuck_manager ''a.example''
      (still_world [example_cert ''a.example'' (days 5)]))) = [CallRenewCertificate ''a.example''] \<and>
   storage_state (snd (renewCertificate doubting_manager ''a.example''
      (still_world [example_cert ''a.example'' (days 5)]))) = [example_cert ''a.example'' (days 5)] \<and>
   calls (snd (renewCertificate doubting_manager ''a.example''
      (still_world [example_cert ''a.example'' (days 5)]))) =
     [CallRenewCertificate ''a.example'',
      CallValidateCertificate (Some (example_cert ''a.example'' (days 90)))] \<and>
   calls (snd (renewCertificate working_manager ''a.example''
      (still_world [example_cert ''a.example'' (days 5)]))) =
     [CallRenewCertificate ''a.example'',
      CallValidateCertificate (Some (example_cert ''a.example'' (days 90))),
      CallStore (Some (example_cert ''a.example'' (days 90))),
      CallDeploy (Some (example_cert ''a.example'' (days 90))) []]"
proof -
  let ?w = "still_world [example_cert ''a.example'' (days 5)]"
  have a: "snd (fst (RenewCertificate (acmeClient stuck_manager) ''a.example'' (outside_state ?w))) \<noteq> None"
    by (simp add: stuck_manager_def unreachable_acme_def)
  have b: "fst (ValidateCertificate (validator doubting_manager)
             (fst (fst (RenewCertificate (acmeClient doubting_manager) ''a.example'' (outside_state ?w))))
             (snd (RenewCertificate (acmeClient doubting_manager) ''a.example'' (outside_state ?w)))) \<noteq> None"
    by (simp add: doubting_manager_def rejecting_validator_def)
  have c: "fst (renewCertificate working_manager ''a.example'' ?w) = None"
    by (simp add: renewCertificate_def call_RenewCertificate_def call_ValidateCertificate_def
        call_Store_def call_Deploy_def working_manager_def issuing_acme_def accepting_validator_def
        memory_storage_def reaching_distributor_def still_world_def)
  have w: "storage_state ?w = [example_cert ''a.example'' (days 5)]" "calls ?w = []"
    by (simp_all add: still_world_def)
  have n1: "fst (fst (RenewCertificate (acmeClient doubting_manager) ''a.example'' (outside_state ?w)))
      = Some (example_cert ''a.example'' (days 90))"
    by (simp add: doubting_manager_def issuing_acme_def example_cert_def)
  have n2: "fst (fst (RenewCertificate (acmeClient working_manager) ''a.example'' (outside_state ?w)))
      = Some (example_cert ''a.example'' (days 90))"
    by (simp add: working_manager_def issuing_acme_def example_cert_def)
  have k1: "drop (length (calls ?w)) (calls (snd (renewCertificate stuck_manager ''a.example'' ?w)))
      = [CallRenewCertificate ''a.example'']"
    by (simp add: renewCertificate_def call_RenewCertificate_def stuck_manager_def
        unreachable_acme_def still_world_def)
  have k2: "drop (length (calls ?w)) (calls (snd (renewCertificate doubting_manager ''a.example'' ?w)))
      = [CallRenewCertificate ''a.example'', CallValidateCertificate (Some (example_cert ''a.example'' (days 90)))]"
    by (simp add: renewCertificate_def call_RenewCertificate_def call_ValidateCertificate_def
        doubting_manager_def issuing_acme_def rejecting_validator_def still_world_def example_cert_def)
  note T1 = renewCertificate_validates_before_store [of stuck_manager "''a.example''" ?w, unfolded Let_def]
  note T2 = renewCertificate_validates_before_store [of doubting_manager "''a.example''" ?w, unfolded Let_def]
  note T3 = renewCertificate_validates_before_store [of working_manager "''a.example''" ?w, unfolded Let_def]
  have s1: "storage_state (snd (renewCertificate stuck_manager ''a.example'' ?w)) = storage_state ?w"
    using T1 a by blast
  have c1: "calls (snd (renewCertificate stuck_manager ''a.example'' ?w)) = [CallRenewCertificate ''a.example'']"
    using T1 [THEN conjunct1] k1 w(2) by simp
  have s2: "storage_state (snd (renewCertificate doubting_manager ''a.example'' ?w)) = storage_state ?w"
    using T2 b by blast
  have c2: "calls (snd (renewCertificate doubting_manager ''a.example'' ?w)) =
      [CallRenewCertificate ''a.example'', CallValidateCertificate (Some (example_cert ''a.example'' (days 90)))]"
    using T2 [THEN conjunct1] k2 w(2) by simp
  have "drop (length (calls ?w)) (calls (snd (renewCertificate working_manager ''a.example'' ?w))) =
      [CallRenewCertificate ''a.example'',
       CallValidateCertificate (Some (example_cert ''a.example'' (days 90))),
       CallStore (Some (example_cert ''a.example'' (days 90))),
       CallDeploy (Some (example_cert ''a.example'' (days 90))) []]"
    using T3 c unfolding n2 by blast
  then have c3: "calls (snd (renewCertificate working_manager ''a.example'' ?w)) =
      [CallRenewCertificate ''a.example'',
       CallValidateCertificate (Some (example_cert ''a.example'' (days 90))),
       CallStore (Some (example_cert ''a.example'' (days 90))),
       CallDeploy (Some (example_cert ''a.example'' (days 90))) []]"
    using T3 [THEN conjunct1] w(2) by simp
  from s1 c1 s2 c2 c3 show ?thesis unfolding w(1) by blast
qed

section \<open>The temporary certificate\<close>

lemma deployTemporaryCertificate_eq:
  "deployTemporaryCertificate m domain reason w =
     call_DeployTemporary m
       \<lparr>tc_Certificate =
          Some \<lparr>Domain = domain, CertData = [], PrivateKey = [],
                Expiry = Time_Add (clock w (clock_reads w + 2)) (14 * 24 * Hour),
                Type = CertificateTypeTemporary,
                Created = clock w (clock_reads w), LastUpdated = clock w (clock_reads w + 1)\<rparr>,
        Reason = reason, ValidityDays = 14, IsTemporary = True\<rparr>
       (w\<lparr>clock_reads := clock_reads w + 3\<rparr>)"
  by (simp add: deployTemporaryCertificate_def time_Now_def generateSelfSignedCertificate_def
      numeral_3_eq_3 numeral_2_eq_2)

text \<open>
  Claim C10. Whatever the domain and the reason, \<^verbatim>\<open>deployTemporaryCertificate\<close> makes one
  call, \<^verbatim>\<open>DeployTemporary\<close>, and none on the store: the state of the store, and with it the
  certificate stored for the domain, is what it was before.
\<close>

theorem deployTemporaryCertificate_leaves_store:
  "storage_state (snd (deployTemporaryCertificate m domain reason w)) = storage_state w \<and>
   Retrieve (storage m) domain (storage_state (snd (deployTemporaryCertificate m domain reason w))) =
     Retrieve (storage m) domain (storage_state w) \<and>
   (\<exists>tc. calls (snd (deployTemporaryCertificate m domain reason w)) =
           calls w @ [CallDeployTemporary tc])"
  by (simp add: deployTemporaryCertificate_eq call_DeployTemporary_eq)

lemma deployTemporaryCertificate_clock:
  "clock (snd (deployTemporaryCertificate m domain reason w)) = clock w"
  by (simp add: deployTemporaryCertificate_eq call_DeployTemporary_eq)

section \<open>The sweep\<close>

lemma renewals_append: "renewals (xs @ ys) = renewals xs @ renewals ys"
  by (induction xs rule: renewals.induct) simp_all

lemma loop_append:
  "checkAndRenewCertificates_loop m (pre @ rest) w =
     (case checkAndRenewCertificates_loop m pre w of
        Return u w' \<Rightarrow> checkAndRenewCertificates_loop m rest w'
      | Panic msg w' \<Rightarrow> Panic msg w')"
  by (induction m pre w rule: checkAndRenewCertificates_loop.induct)
    (simp_all add: Let_def split: prod.splits)

lemma time_Until_eq:
  "time_Until t w = (Time_Sub t (clock w (clock_reads w)), w\<lparr>clock_reads := Suc (clock_reads w)\<rparr>)"
  by (simp add: time_Until_def time_Now_def)

lemma loop_Some:
  "checkAndRenewCertificates_loop m (Some cert # rest) w =
     (let w1 = w\<lparr>clock_reads := Suc (clock_reads w)\<rparr>;
          r = renewCertificate m (Domain cert) w1
      in if due cert (clock w (clock_reads w)) then
           if fst r \<noteq> None then
             checkAndRenewCertificates_loop m rest
               (snd (deployTemporaryCertificate m (Domain cert) ''renewal_failed'' (snd r)))
           else checkAndRenewCertificates_loop m rest (snd r)
         else checkAndRenewCertificates_loop m rest w1)"
  by (simp add: time_Until_eq due_def Let_def split: prod.splits)

lemma renewCertificate_calls_more: "\<exists>more. calls (snd (renewCertificate m domain w)) = calls w @ more"
  by (simp add: renewCertificate_calls Let_def)

lemma loop_calls:
  "\<exists>more. calls (world_of (checkAndRenewCertificates_loop m cs w)) = calls w @ more"
proof (induction cs arbitrary: w)
  case Nil
  then show ?case by simp
next
  case (Cons a cs)
  show ?case
  proof (cases a)
    case None
    then show ?thesis by simp
  next
    case (Some cert)
    let ?w1 = "w\<lparr>clock_reads := Suc (clock_reads w)\<rparr>"
    let ?r = "renewCertificate m (Domain cert) ?w1"
    let ?t = "deployTemporaryCertificate m (Domain cert) ''renewal_failed'' (snd ?r)"
    obtain m1 where r: "calls (snd ?r) = calls w @ m1"
      using renewCertificate_calls_more [of m "Domain cert" ?w1] by auto
    obtain m2 where t: "calls (snd ?t) = calls (snd ?r) @ m2"
      by (auto simp: deployTemporaryCertificate_eq call_DeployTemporary_eq)
    obtain m3 where a: "calls (world_of (checkAndRenewCertificates_loop m cs ?w1)) = calls ?w1 @ m3"
      using Cons.IH [of ?w1] by blast
    obtain m4 where b: "calls (world_of (checkAndRenewCertificates_loop m cs (snd ?r))) = calls (snd ?r) @ m4"
      using Cons.IH [of "snd ?r"] by blast
    obtain m5 where c: "calls (world_of (checkAndRenewCertificates_loop m cs (snd ?t))) = calls (snd ?t) @ m5"
      using Cons.IH [of "snd ?t"] by blast
    show ?thesis
      unfolding Some loop_Some Let_def using a b c r t by auto
  qed
qed

lemmas fixture_defs = stuck_manager_def working_manager_def doubting_manager_def blind_manager_def
  memory_storage_def broken_storage_def unreachable_acme_def issuing_acme_def
  accepting_validator_def rejecting_validator_def reaching_distributor_def
  still_world_def ticking_world_def example_cert_def

lemmas run_defs = checkAndRenewCertificates_def renewCertificate_def deployTemporaryCertificate_def
  generateSelfSignedCertificate_def time_Until_def time_Now_def
  call_RenewCertificate_def call_ValidateCertificate_def call_Store_def call_Deploy_def
  call_DeployTemporary_def call_List_def
  Time_Sub_def Time_Add_def Hour_def maxDuration_def minDuration_def days_def

lemma checkAndRenewCertificates_eq:
  "checkAndRenewCertificates m w0 =
     (let l = List (storage m) (storage_state w0);
          w1 = w0\<lparr>storage_state := snd l, calls := calls w0 @ [CallList]\<rparr>
      in if snd (fst l) \<noteq> None then Return (snd (fst l)) w1
         else case checkAndRenewCertificates_loop m (fst (fst l)) w1 of
                Panic msg w2 \<Rightarrow> Panic msg w2
              | Return u w2 \<Rightarrow> Return None w2)"
  by (simp add: checkAndRenewCertificates_def call_List_eq Let_def split: prod.splits)

lemma world_of_sweep:
  "call_List m w0 = ((cs, None), w1) \<Longrightarrow>
   world_of (checkAndRenewCertificates m w0) = world_of (checkAndRenewCertificates_loop m cs w1)"
  by (simp add: checkAndRenewCertificates_def split: outcome.splits)

lemma sweep_reaches:
  assumes "call_List m w0 = ((pre @ Some cert # rest, None), w1)"
    and "checkAndRenewCertificates_loop m pre w1 = Return () w"
  shows "world_of (checkAndRenewCertificates m w0) =
         world_of (checkAndRenewCertificates_loop m (Some cert # rest) w)"
  using assms by (simp add: world_of_sweep loop_append)




lemma renewCertificate_calls_first:
  "\<exists>more. calls (snd (renewCertificate m domain w)) = calls w @ CallRenewCertificate domain # more"
  by (simp add: renewCertificate_calls Let_def)

text \<open>
  Claim C6, as amended. The sweep renews inline: when it reaches a certificate with at most
  30 days left, \<^verbatim>\<open>checkAndRenewCertificates\<close> itself calls \<^verbatim>\<open>RenewCertificate\<close> for its
  domain, as its next call on a collaborator, before it goes on to the next certificate.
\<close>

theorem sweep_renews_inline:
  assumes "call_List m w0 = ((pre @ Some cert # rest, None), w1)"
    and "checkAndRenewCertificates_loop m pre w1 = Return () w"
    and "due cert (clock w (clock_reads w))"
  shows "\<exists>after. calls (world_of (checkAndRenewCertificates m w0)) =
           calls w @ CallRenewCertificate (Domain cert) # after"
proof -
  let ?w1 = "w\<lparr>clock_reads := Suc (clock_reads w)\<rparr>"
  let ?r = "renewCertificate m (Domain cert) ?w1"
  let ?t = "deployTemporaryCertificate m (Domain cert) ''renewal_failed'' (snd ?r)"
  obtain m1 where r: "calls (snd ?r) = calls w @ CallRenewCertificate (Domain cert) # m1"
    using renewCertificate_calls_first [of m "Domain cert" ?w1] by auto
  obtain m2 where t: "calls (snd ?t) = calls (snd ?r) @ m2"
    by (auto simp: deployTemporaryCertificate_eq call_DeployTemporary_eq)
  obtain m4 where b: "calls (world_of (checkAndRenewCertificates_loop m rest (snd ?r))) = calls (snd ?r) @ m4"
    using loop_calls [of m rest "snd ?r"] by blast
  obtain m5 where c: "calls (world_of (checkAndRenewCertificates_loop m rest (snd ?t))) = calls (snd ?t) @ m5"
    using loop_calls [of m rest "snd ?t"] by blast
  have "\<exists>after. calls (world_of (checkAndRenewCertificates_loop m (Some cert # rest) w)) =
           calls w @ CallRenewCertificate (Domain cert) # after"
    unfolding loop_Some Let_def using assms(3) r t b c by auto
  then show ?thesis using sweep_reaches [OF assms(1,2)] by simp
qed

text \<open>The sweep over one certificate with 5 days left, as an instance of the theorem of claim C6.\<close>

theorem sweep_renews_inline_witness:
  "\<exists>after. calls (world_of (checkAndRenewCertificates working_manager
        (still_world [example_cert ''a.example'' (days 5)]))) =
      [CallList] @ CallRenewCertificate ''a.example'' # after"
proof -
  let ?cert = "example_cert ''a.example'' (days 5)"
  let ?init = "still_world [?cert]"
  let ?w = "?init\<lparr>calls := [CallList]\<rparr>"
  have l: "call_List working_manager ?init = (([] @ Some ?cert # [], None), ?w)"
    by (simp add: call_List_def fixture_defs)
  have p: "checkAndRenewCertificates_loop working_manager [] ?w = Return () ?w"
    by simp
  have d: "due ?cert (clock ?w (clock_reads ?w))"
    by (simp add: due_def fixture_defs word_sle_eq Time_Sub_def Hour_def maxDuration_def
        minDuration_def days_def)
  have k: "calls ?w = [CallList]" "Domain ?cert = ''a.example''"
    by (simp_all add: fixture_defs)
  show ?thesis
    using sweep_renews_inline [OF l p d] unfolding k by blast
qed

text \<open>
  A sweep over one certificate with 5 days left: the authority, the validator, the store
  and the distributor are called by the sweep itself.
\<close>

theorem inline_renewal_counterexample:
  "calls (world_of (checkAndRenewCertificates working_manager
       (still_world [example_cert ''a.example'' (days 5)]))) =
     [CallList, CallRenewCertificate ''a.example'',
      CallValidateCertificate (Some (example_cert ''a.example'' (days 90))),
      CallStore (Some (example_cert ''a.example'' (days 90))),
      CallDeploy (Some (example_cert ''a.example'' (days 90))) []]"
  by (simp add: run_defs fixture_defs)

section \<open>Errors during the sweep\<close>

lemma renewCertificate_renewals:
  "renewals (calls (snd (renewCertificate m domain w))) = renewals (calls w) @ [domain]"
  by (simp add: renewCertificate_calls renewals_append Let_def)

lemma deployTemporaryCertificate_renewals:
  "renewals (calls (snd (deployTemporaryCertificate m domain reason w))) = renewals (calls w)"
  by (simp add: deployTemporaryCertificate_eq call_DeployTemporary_eq renewals_append)

lemma steady_head: "steady (cert # cs) clk \<Longrightarrow> due cert (clk i) = due cert (clk 0)"
  unfolding steady_def by (meson list.set_intros(1))

lemma steady_tail: "steady (cert # cs) clk \<Longrightarrow> steady cs clk"
  unfolding steady_def by (meson list.set_intros(2))

lemma loop_renewals:
  "steady cs (clock w) \<Longrightarrow>
   \<exists>w'. checkAndRenewCertificates_loop m (map Some cs) w = Return () w' \<and>
        clock w' = clock w \<and>
        renewals (calls w') =
          renewals (calls w) @ map Domain (filter (\<lambda>c. due c (clock w 0)) cs)"
proof (induction cs arbitrary: w)
  case Nil
  then show ?case by simp
next
  case (Cons cert cs)
  let ?w1 = "w\<lparr>clock_reads := Suc (clock_reads w)\<rparr>"
  let ?r = "renewCertificate m (Domain cert) ?w1"
  let ?t = "deployTemporaryCertificate m (Domain cert) ''renewal_failed'' (snd ?r)"
  let ?next = "if due cert (clock w 0) then (if fst ?r \<noteq> None then snd ?t else snd ?r) else ?w1"
  have d: "due cert (clock w (clock_reads w)) = due cert (clock w 0)"
    using Cons.prems by (rule steady_head)
  have step: "checkAndRenewCertificates_loop m (map Some (cert # cs)) w =
      checkAndRenewCertificates_loop m (map Some cs) ?next"
    unfolding list.map loop_Some d by (simp add: Let_def)
  have ck: "clock ?next = clock w"
    using renewCertificate_clock [of m "Domain cert" ?w1]
    by (simp add: deployTemporaryCertificate_clock)
  have rn: "renewals (calls ?next) =
      renewals (calls w) @ (if due cert (clock w 0) then [Domain cert] else [])"
    by (simp add: renewCertificate_renewals deployTemporaryCertificate_renewals)
  have "steady cs (clock ?next)"
    unfolding ck using Cons.prems by (rule steady_tail)
  from Cons.IH [OF this] obtain w' where
    "checkAndRenewCertificates_loop m (map Some cs) ?next = Return () w'"
    "clock w' = clock ?next"
    "renewals (calls w') = renewals (calls ?next) @ map Domain (filter (\<lambda>c. due c (clock ?next 0)) cs)"
    by blast
  then show ?case unfolding step ck rn by simp
qed

lemma Monitor_returns_on_done:
  "MonitorCertificates m ctxErr arrivals w = Returned e w' \<Longrightarrow> CtxDone \<in> set arrivals \<and> e = ctxErr"
proof (induction arrivals arbitrary: w)
  case Nil
  then show ?case by simp
next
  case (Cons a arrivals)
  show ?case
  proof (cases a)
    case CtxDone
    with Cons.prems show ?thesis by simp
  next
    case Tick
    with Cons.prems Cons.IH show ?thesis
      by (auto split: outcome.splits if_splits)
  qed
qed

text \<open>
  Claim C8. \<^verbatim>\<open>checkAndRenewCertificates\<close> returns an error exactly when listing the store
  returns one, and that error. When the store lists the certificates \<open>cs\<close> (and the clock
  is steady for them: it moves none across the 30-day mark during the sweep), the sweep
  returns nil and has asked for the renewal of every listed certificate with at most 30
  days left, in order, whatever errors the renewals and the temporary deployments of the
  others returned. \<^verbatim>\<open>MonitorCertificates\<close> goes on to its next round after a sweep that
  returned, with an error or without, and returns only when the context ends, with the
  context's error. (A panic is not an error: a nil pointer in the list of the store ends
  the sweep.)
\<close>

theorem sweep_contains_failures:
  "(snd (fst (List (storage m) (storage_state w))) \<noteq> None \<longrightarrow>
      (\<exists>w'. checkAndRenewCertificates m w = Return (snd (fst (List (storage m) (storage_state w)))) w')) \<and>
   (checkAndRenewCertificates m w = Return (Some e) w' \<longrightarrow>
      snd (fst (List (storage m) (storage_state w))) = Some e) \<and>
   (fst (List (storage m) (storage_state w)) = (map Some cs, None) \<and> steady cs (clock w) \<longrightarrow>
      (\<exists>w'. checkAndRenewCertificates m w = Return None w' \<and>
            renewals (calls w') =
              renewals (calls w) @ map Domain (filter (\<lambda>c. due c (clock w 0)) cs))) \<and>
   (checkAndRenewCertificates m w = Return err w' \<longrightarrow>
      MonitorCertificates m ctxErr (Tick # arrivals) w = MonitorCertificates m ctxErr arrivals w') \<and>
   (MonitorCertificates m ctxErr arrivals w = Returned e' w'' \<longrightarrow>
      CtxDone \<in> set arrivals \<and> e' = ctxErr)"
proof -
  let ?l = "List (storage m) (storage_state w)"
  let ?w1 = "w\<lparr>storage_state := snd ?l, calls := calls w @ [CallList]\<rparr>"
  have a: "snd (fst ?l) \<noteq> None \<longrightarrow>
      (\<exists>w'. checkAndRenewCertificates m w = Return (snd (fst ?l)) w')"
    by (simp add: checkAndRenewCertificates_eq Let_def)
  have b: "checkAndRenewCertificates m w = Return (Some e) w' \<longrightarrow> snd (fst ?l) = Some e"
    by (auto simp: checkAndRenewCertificates_eq Let_def split: if_splits outcome.splits)
  have c: "fst ?l = (map Some cs, None) \<and> steady cs (clock w) \<longrightarrow>
      (\<exists>w'. checkAndRenewCertificates m w = Return None w' \<and>
            renewals (calls w') =
              renewals (calls w) @ map Domain (filter (\<lambda>c. due c (clock w 0)) cs))"
  proof
    assume h: "fst ?l = (map Some cs, None) \<and> steady cs (clock w)"
    then have l: "fst ?l = (map Some cs, None)" and "steady cs (clock ?w1)" by simp_all
    from loop_renewals [OF this(2), of m] obtain w' where
      "checkAndRenewCertificates_loop m (map Some cs) ?w1 = Return () w'"
      "renewals (calls w') = renewals (calls ?w1) @ map Domain (filter (\<lambda>c. due c (clock ?w1 0)) cs)"
      by blast
    then show "\<exists>w'. checkAndRenewCertificates m w = Return None w' \<and>
            renewals (calls w') =
              renewals (calls w) @ map Domain (filter (\<lambda>c. due c (clock w 0)) cs)"
      using l by (simp add: checkAndRenewCertificates_eq Let_def renewals_append)
  qed
  have d: "checkAndRenewCertificates m w = Return err w' \<longrightarrow>
      MonitorCertificates m ctxErr (Tick # arrivals) w = MonitorCertificates m ctxErr arrivals w'"
    by simp
  have e: "MonitorCertificates m ctxErr arrivals w = Returned e' w'' \<longrightarrow>
      CtxDone \<in> set arrivals \<and> e' = ctxErr"
    using Monitor_returns_on_done by blast
  from a b c d e show ?thesis by blast
qed

text \<open>
  A store that is unavailable, under one sweep and under the monitor; and an authority that
  is unreachable, under a sweep over three certificates with 5 days left, 60 days left and
  one day past expiry.
\<close>

theorem sweep_contains_failures_witness:
  "(\<exists>w'. checkAndRenewCertificates blind_manager (still_world []) =
           Return (Some ''store unavailable'') w') \<and>
   (\<exists>w'. checkAndRenewCertificates stuck_manager
            (still_world [example_cert ''a.example'' (days 5), example_cert ''b.example'' (days 60),
                          example_cert ''c.example'' (- days 1)]) = Return None w' \<and>
         renewals (calls w') = [''a.example'', ''c.example'']) \<and>
   (\<exists>w'. MonitorCertificates blind_manager (Some ''context canceled'') [Tick, Tick]
            (still_world []) = Waiting w') \<and>
   (\<exists>w'. MonitorCertificates blind_manager (Some ''context canceled'') [Tick, CtxDone]
            (still_world []) = Returned (Some ''context canceled'') w')"
proof -
  let ?cs = "[example_cert ''a.example'' (days 5), example_cert ''b.example'' (days 60),
             example_cert ''c.example'' (- days 1)]"
  let ?ctx = "Some ''context canceled''"
  have broken: "snd (fst (List (storage blind_manager) s)) = Some ''store unavailable''" for s
    by (simp add: blind_manager_def broken_storage_def)
  note T = sweep_contains_failures [where m = blind_manager]
  obtain w1 where s1: "checkAndRenewCertificates blind_manager (still_world []) =
      Return (Some ''store unavailable'') w1"
    using T [where w = "still_world []", THEN conjunct1] broken by auto
  have "snd (fst (List (storage blind_manager) (storage_state (still_world [])))) =
      Some ''store unavailable''"
    using T [where w = "still_world []" and e = "''store unavailable''" and w' = w1,
        THEN conjunct2, THEN conjunct1] s1 by blast
  obtain w2 where s2: "checkAndRenewCertificates blind_manager w1 =
      Return (Some ''store unavailable'') w2"
    using T [where w = w1, THEN conjunct1] broken by auto
  have m1: "MonitorCertificates blind_manager ?ctx (Tick # [Tick]) (still_world []) =
      MonitorCertificates blind_manager ?ctx [Tick] w1"
    using T [where w = "still_world []" and err = "Some ''store unavailable''" and w' = w1
        and ctxErr = ?ctx and arrivals = "[Tick]",
        THEN conjunct2, THEN conjunct2, THEN conjunct2, THEN conjunct1] s1 by blast
  have m2: "MonitorCertificates blind_manager ?ctx (Tick # []) w1 =
      MonitorCertificates blind_manager ?ctx [] w2"
    using T [where w = w1 and err = "Some ''store unavailable''" and w' = w2
        and ctxErr = ?ctx and arrivals = "[]",
        THEN conjunct2, THEN conjunct2, THEN conjunct2, THEN conjunct1] s2 by blast
  have c3: "MonitorCertificates blind_manager ?ctx [Tick, Tick] (still_world []) = Waiting w2"
    using m1 m2 by simp
  have m3: "MonitorCertificates blind_manager ?ctx (Tick # [CtxDone]) (still_world []) =
      MonitorCertificates blind_manager ?ctx [CtxDone] w1"
    using T [where w = "still_world []" and err = "Some ''store unavailable''" and w' = w1
        and ctxErr = ?ctx and arrivals = "[CtxDone]",
        THEN conjunct2, THEN conjunct2, THEN conjunct2, THEN conjunct1] s1 by blast
  then have c4: "MonitorCertificates blind_manager ?ctx [Tick, CtxDone] (still_world []) =
      Returned ?ctx w1"
    by simp
  have "CtxDone \<in> set [Tick, CtxDone] \<and> ?ctx = ?ctx"
    using T [where w = "still_world []" and ctxErr = ?ctx and arrivals = "[Tick, CtxDone]"
        and e' = ?ctx and w'' = w1,
        THEN conjunct2, THEN conjunct2, THEN conjunct2, THEN conjunct2] c4 by blast
  have l: "fst (List (storage stuck_manager) (storage_state (still_world ?cs))) = (map Some ?cs, None)"
    by (simp add: stuck_manager_def memory_storage_def still_world_def)
  have st: "steady ?cs (clock (still_world ?cs))"
    by (simp add: steady_def still_world_def)
  have du: "filter (\<lambda>c. due c (clock (still_world ?cs) 0)) ?cs =
      [example_cert ''a.example'' (days 5), example_cert ''c.example'' (- days 1)]"
    by (simp add: still_world_def due_def example_cert_def word_sle_eq Time_Sub_def Hour_def
        maxDuration_def minDuration_def days_def)
  obtain w3 where "checkAndRenewCertificates stuck_manager (still_world ?cs) = Return None w3"
    and "renewals (calls w3) = renewals (calls (still_world ?cs)) @
           map Domain (filter (\<lambda>c. due c (clock (still_world ?cs) 0)) ?cs)"
    using sweep_contains_failures [where m = stuck_manager and w = "still_world ?cs" and cs = ?cs,
        THEN conjunct2, THEN conjunct2, THEN conjunct1] l st by blast
  then have c2: "checkAndRenewCertificates stuck_manager (still_world ?cs) = Return None w3 \<and>
      renewals (calls w3) = [''a.example'', ''c.example'']"
    unfolding du by (simp add: still_world_def example_cert_def)
  from s1 c2 c3 c4 show ?thesis by blast
qed

section \<open>The queue\<close>

lemmas handler_defs = processCertificateRenewal_def processCertificateValidation_def
  processConfigUpdate_def processLogProcessing_def processAnalytics_def
  processDatabaseCleanup_def processIntegration_def

lemma processJob_service: "fst (processJob s job lg) = s"
  unfolding processJob_def Let_def handler_defs
  by (simp only: if_distrib [of fst] fst_conv if_cancel)

lemma AddJob_room:
  "length (buf (jobs s)) < cap (jobs s) \<Longrightarrow>
   AddJob s job = (None, s\<lparr>jobs := (jobs s)\<lparr>buf := buf (jobs s) @ [job]\<rparr>\<rparr>)"
  by (simp add: AddJob_def select_send_def)

lemma AddJob_full:
  "\<not> length (buf (jobs s)) < cap (jobs s) \<Longrightarrow> AddJob s job = (Some ErrQueueFull, s)"
  by (simp add: AddJob_def select_send_def)

lemma worker_round_empty: "buf (jobs s) = [] \<Longrightarrow> worker_round s lg = None"
  by (simp add: worker_round_def select_recv_def)

lemma worker_round_head:
  "buf (jobs s) = job # rest \<Longrightarrow>
   worker_round s lg =
     Some (job, s\<lparr>jobs := (jobs s)\<lparr>buf := rest\<rparr>\<rparr>,
           snd (processJob (s\<lparr>jobs := (jobs s)\<lparr>buf := rest\<rparr>\<rparr>) job lg))"
  using processJob_service [of "s\<lparr>jobs := (jobs s)\<lparr>buf := rest\<rparr>\<rparr>" job lg]
  by (cases "processJob (s\<lparr>jobs := (jobs s)\<lparr>buf := rest\<rparr>\<rparr>) job lg")
    (simp add: worker_round_def select_recv_def)

text \<open>What one event does to the channel.\<close>

lemma step_Submit:
  "step (Submit job) (s, lg) =
     (if length (buf (jobs s)) < cap (jobs s)
      then (Accepted job, s\<lparr>jobs := (jobs s)\<lparr>buf := buf (jobs s) @ [job]\<rparr>\<rparr>, lg)
      else (Refused job ErrQueueFull, s, lg))"
  by (simp add: AddJob_room AddJob_full)

lemma step_WorkerRound:
  "step (WorkerRound n) (s, lg) =
     (case buf (jobs s) of
        [] \<Rightarrow> (Idle n, s, lg)
      | job # rest \<Rightarrow>
          (Dequeued n job, s\<lparr>jobs := (jobs s)\<lparr>buf := rest\<rparr>\<rparr>,
           snd (processJob (s\<lparr>jobs := (jobs s)\<lparr>buf := rest\<rparr>\<rparr>) job lg)))"
  by (simp add: worker_round_empty worker_round_head split: list.splits)

lemma run_Cons:
  "run (e # es) st =
     (fst (step e st) # fst (run es (snd (step e st))), snd (run es (snd (step e st))))"
  by (simp add: Let_def split: prod.splits)

lemma run_fifo:
  "dequeued (fst (run events (s, lg))) @ buf (jobs (fst (snd (run events (s, lg))))) =
   buf (jobs s) @ accepted (fst (run events (s, lg)))"
proof (induction events arbitrary: s lg)
  case Nil
  then show ?case by simp
next
  case (Cons e events)
  show ?case
  proof (cases e)
    case (Submit job)
    show ?thesis
    proof (cases "length (buf (jobs s)) < cap (jobs s)")
      case True
      then show ?thesis
        using Cons.IH [of "s\<lparr>jobs := (jobs s)\<lparr>buf := buf (jobs s) @ [job]\<rparr>\<rparr>" lg]
        unfolding Submit run_Cons step_Submit by simp
    next
      case False
      then show ?thesis
        using Cons.IH [of s lg]
        unfolding Submit run_Cons step_Submit by simp
    qed
  next
    case (WorkerRound n)
    show ?thesis
    proof (cases "buf (jobs s)")
      case Nil
      then show ?thesis
        using Cons.IH [of s lg]
        unfolding WorkerRound run_Cons step_WorkerRound by simp
    next
      case (Cons job rest)
      then show ?thesis
        using Cons.IH [of "s\<lparr>jobs := (jobs s)\<lparr>buf := rest\<rparr>\<rparr>"
            "snd (processJob (s\<lparr>jobs := (jobs s)\<lparr>buf := rest\<rparr>\<rparr>) job lg)"]
        unfolding WorkerRound run_Cons step_WorkerRound by simp
    qed
  qed
qed

lemma run_capacity:
  "length (buf (jobs s)) \<le> cap (jobs s) \<Longrightarrow>
   length (buf (jobs (fst (snd (run events (s, lg)))))) \<le> cap (jobs s) \<and>
   cap (jobs (fst (snd (run events (s, lg))))) = cap (jobs s)"
proof (induction events arbitrary: s lg)
  case Nil
  then show ?case by simp
next
  case (Cons e events)
  show ?case
  proof (cases e)
    case (Submit job)
    show ?thesis
    proof (cases "length (buf (jobs s)) < cap (jobs s)")
      case True
      then show ?thesis
        using Cons.IH [of "s\<lparr>jobs := (jobs s)\<lparr>buf := buf (jobs s) @ [job]\<rparr>\<rparr>" lg]
        unfolding Submit run_Cons step_Submit by simp
    next
      case False
      then show ?thesis
        using Cons.IH [of s lg] Cons.prems
        unfolding Submit run_Cons step_Submit by simp
    qed
  next
    case (WorkerRound n)
    show ?thesis
    proof (cases "buf (jobs s)")
      case Nil
      then show ?thesis
        using Cons.IH [of s lg] Cons.prems
        unfolding WorkerRound run_Cons step_WorkerRound by simp
    next
      case (Cons job rest)
      then show ?thesis
        using Cons.IH [of "s\<lparr>jobs := (jobs s)\<lparr>buf := rest\<rparr>\<rparr>"
            "snd (processJob (s\<lparr>jobs := (jobs s)\<lparr>buf := rest\<rparr>\<rparr>) job lg)"] Cons.prems
        unfolding WorkerRound run_Cons step_WorkerRound by simp
    qed
  qed
qed


lemmas queue_defs = queue_New_def make_chan_def AddJob_def select_send_def select_recv_def
  worker_round_def processJob_def processCertificateRenewal_def example_job_def
  JobTypeCertificateRenewal_def ErrQueueFull_def

text \<open>
  Claim C4, as amended. The workers receive the jobs in the order of their submission,
  whatever their priorities: in every run, from every state of the service, the jobs
  received so far followed by the jobs still in the channel are the jobs the channel held
  at the start followed by the jobs accepted since, in order. A worker's round takes the job
  at the head of the channel, and an accepted job goes to its end. Jobs of equal priority
  are therefore received in the order of their submission, as are jobs of different
  priorities.
\<close>

theorem jobs_dequeued_in_submission_order:
  "dequeued (fst (run events (s, lg))) @ buf (jobs (fst (snd (run events (s, lg))))) =
     buf (jobs s) @ accepted (fst (run events (s, lg))) \<and>
   (buf (jobs s) = job # rest \<longrightarrow>
      (\<exists>lg'. worker_round s lg = Some (job, s\<lparr>jobs := (jobs s)\<lparr>buf := rest\<rparr>\<rparr>, lg'))) \<and>
   (length (buf (jobs s)) < cap (jobs s) \<longrightarrow>
      buf (jobs (snd (AddJob s job'))) = buf (jobs s) @ [job'])"
  by (simp add: run_fifo worker_round_head AddJob_room)

text \<open>Two jobs submitted and received, as an instance of the theorem of claim C4.\<close>

theorem jobs_dequeued_in_submission_order_witness:
  "dequeued (fst (run [Submit (example_job ''routine'' 1000), Submit (example_job ''urgent'' 1),
                        WorkerRound 0, WorkerRound 1] (queue_New, []))) =
     [example_job ''routine'' 1000, example_job ''urgent'' 1] \<and>
   (\<exists>lg'. worker_round
      (queue_New\<lparr>jobs := \<lparr>buf = [example_job ''routine'' 1000, example_job ''urgent'' 1], cap = 1000\<rparr>\<rparr>) [] =
      Some (example_job ''routine'' 1000,
            queue_New\<lparr>jobs := \<lparr>buf = [example_job ''urgent'' 1], cap = 1000\<rparr>\<rparr>, lg')) \<and>
   buf (jobs (snd (AddJob (queue_New\<lparr>jobs := \<lparr>buf = [example_job ''routine'' 1000], cap = 1000\<rparr>\<rparr>)
                     (example_job ''urgent'' 1)))) =
     [example_job ''routine'' 1000, example_job ''urgent'' 1]"
proof -
  let ?a = "example_job ''routine'' 1000"
  let ?b = "example_job ''urgent'' 1"
  let ?events = "[Submit ?a, Submit ?b, WorkerRound 0, WorkerRound 1]"
  let ?s2 = "(queue_New :: unit Service)\<lparr>jobs := \<lparr>buf = [?a, ?b], cap = 1000\<rparr>\<rparr>"
  let ?s1 = "(queue_New :: unit Service)\<lparr>jobs := \<lparr>buf = [?a], cap = 1000\<rparr>\<rparr>"
  have acc: "accepted (fst (run ?events (queue_New, []))) = [?a, ?b]"
    by (simp add: queue_defs)
  have left: "buf (jobs (fst (snd (run ?events (queue_New, []))))) = []"
    by (simp add: queue_defs)
  have start: "buf (jobs (queue_New :: unit Service)) = []"
    by (simp add: queue_defs)
  have c1: "dequeued (fst (run ?events (queue_New, []))) = [?a, ?b]"
    using jobs_dequeued_in_submission_order [where events = ?events and s = queue_New and lg = "[]",
        THEN conjunct1]
    unfolding acc left start by simp
  have h2: "buf (jobs ?s2) = ?a # [?b]" by simp
  have c2: "\<exists>lg'. worker_round ?s2 [] =
      Some (?a, ?s2\<lparr>jobs := (jobs ?s2)\<lparr>buf := [?b]\<rparr>\<rparr>, lg')"
    using jobs_dequeued_in_submission_order [where s = ?s2 and job = ?a and rest = "[?b]" and lg = "[]",
        THEN conjunct2, THEN conjunct1] h2 by blast
  have h3: "length (buf (jobs ?s1)) < cap (jobs ?s1)" by simp
  have c3: "buf (jobs (snd (AddJob ?s1 ?b))) = buf (jobs ?s1) @ [?b]"
    using jobs_dequeued_in_submission_order [where s = ?s1 and job' = ?b,
        THEN conjunct2, THEN conjunct2] h3 by blast
  from c1 c2 c3 show ?thesis by simp
qed

text \<open>
  A job of priority 1000 is submitted, then a job of priority 1; with both waiting, the
  worker receives the job of priority 1000.
\<close>

theorem priority_ignored_counterexample:
  "fst (run [Submit (example_job ''routine'' 1000), Submit (example_job ''urgent'' 1), WorkerRound 0]
          (queue_New, [])) =
     [Accepted (example_job ''routine'' 1000), Accepted (example_job ''urgent'' 1),
      Dequeued 0 (example_job ''routine'' 1000)] \<and>
   Priority (example_job ''urgent'' 1) < Priority (example_job ''routine'' 1000)"
  by (simp add: queue_defs)

text \<open>
  Claim C5. \<^verbatim>\<open>AddJob\<close> always returns: when the channel has room, the job is appended to
  it and nil is returned; when it is full, \<^verbatim>\<open>ErrQueueFull\<close> is returned and the service is
  left as it was. The number of waiting jobs never exceeds the capacity: not after
  \<^verbatim>\<open>AddJob\<close>, and not after any run of submissions and worker rounds. The channel of a new
  service is empty and has capacity 1000.
\<close>

theorem AddJob_bounded:
  "(length (buf (jobs s)) < cap (jobs s) \<longrightarrow>
      AddJob s job = (None, s\<lparr>jobs := (jobs s)\<lparr>buf := buf (jobs s) @ [job]\<rparr>\<rparr>)) \<and>
   (cap (jobs s) \<le> length (buf (jobs s)) \<longrightarrow> AddJob s job = (Some ErrQueueFull, s)) \<and>
   (length (buf (jobs s)) \<le> cap (jobs s) \<longrightarrow>
      length (buf (jobs (snd (AddJob s job)))) \<le> cap (jobs s) \<and>
      cap (jobs (snd (AddJob s job))) = cap (jobs s)) \<and>
   (length (buf (jobs s)) \<le> cap (jobs s) \<longrightarrow>
      length (buf (jobs (fst (snd (run events (s, lg)))))) \<le> cap (jobs s) \<and>
      cap (jobs (fst (snd (run events (s, lg))))) = cap (jobs s)) \<and>
   buf (jobs (queue_New :: 'v Service)) = [] \<and>
   cap (jobs (queue_New :: 'v Service)) = 1000"
proof -
  have a: "length (buf (jobs s)) \<le> cap (jobs s) \<longrightarrow>
      length (buf (jobs (snd (AddJob s job)))) \<le> cap (jobs s) \<and>
      cap (jobs (snd (AddJob s job))) = cap (jobs s)"
    by (cases "length (buf (jobs s)) < cap (jobs s)") (simp_all add: AddJob_room AddJob_full)
  have b: "length (buf (jobs s)) \<le> cap (jobs s) \<longrightarrow>
      length (buf (jobs (fst (snd (run events (s, lg)))))) \<le> cap (jobs s) \<and>
      cap (jobs (fst (snd (run events (s, lg))))) = cap (jobs s)"
    using run_capacity [of s events lg] by blast
  show ?thesis
    using a b by (simp add: AddJob_room AddJob_full queue_New_def make_chan_def)
qed

text \<open>A submission to a new service, and one to a service with 1000 jobs waiting.\<close>

theorem AddJob_bounded_witness:
  "AddJob queue_New (example_job ''renew-1'' 1) =
     (None, queue_New\<lparr>jobs := \<lparr>buf = [example_job ''renew-1'' 1], cap = 1000\<rparr>\<rparr>) \<and>
   length (buf (jobs full_service)) = 1000 \<and>
   AddJob full_service (example_job ''renew-1'' 1) = (Some ErrQueueFull, full_service) \<and>
   length (buf (jobs (snd (AddJob full_service (example_job ''renew-1'' 1))))) \<le> 1000 \<and>
   length (buf (jobs (fst (snd (run [Submit (example_job ''renew-1'' 1), WorkerRound 0]
                                   (full_service, [])))))) \<le> 1000"
proof -
  let ?j = "example_job ''renew-1'' 1"
  note T = AddJob_bounded [where 'v = unit]
  have n: "buf (jobs (queue_New :: unit Service)) = []" "cap (jobs (queue_New :: unit Service)) = 1000"
    using T [THEN conjunct2, THEN conjunct2, THEN conjunct2, THEN conjunct2] by simp_all
  have f: "length (buf (jobs full_service)) = 1000" "cap (jobs full_service) = 1000"
    by (simp_all add: full_service_def)
  have c1: "AddJob queue_New ?j = (None, queue_New\<lparr>jobs := \<lparr>buf = [?j], cap = 1000\<rparr>\<rparr>)"
    using T [where s = queue_New and job = ?j, THEN conjunct1] n
    by (simp add: queue_New_def make_chan_def)
  have c2: "AddJob full_service ?j = (Some ErrQueueFull, full_service)"
    using T [where s = full_service and job = ?j, THEN conjunct2, THEN conjunct1] f by simp
  have c3: "length (buf (jobs (snd (AddJob full_service ?j)))) \<le> 1000"
    using T [where s = full_service and job = ?j, THEN conjunct2, THEN conjunct2, THEN conjunct1] f
    by simp
  have c4: "length (buf (jobs (fst (snd (run [Submit ?j, WorkerRound 0] (full_service, [])))))) \<le> 1000"
    using T [where s = full_service and events = "[Submit ?j, WorkerRound 0]" and lg = "[]",
        THEN conjunct2, THEN conjunct2, THEN conjunct2, THEN conjunct1] f
    by simp
  from c1 f(1) c2 c3 c4 show ?thesis by blast
qed



end
